theory Spec2Isabelle
  imports Complex_Main
begin

section \<open>Scalars\<close>

text \<open>
  The value of a numpy \<open>float64\<close> scalar: a finite number or one of the three special
  values of IEEE 754. The sign of a zero is not kept.
\<close>

datatype float64 = Finite real | PosInf | NegInf | NaN

fun isnan :: "float64 \<Rightarrow> bool" where
  "isnan NaN = True"
| "isnan _ = False"

fun isfinite :: "float64 \<Rightarrow> bool" where
  "isfinite (Finite _) = True"
| "isfinite _ = False"

section \<open>The arithmetic of numpy\<close>

text \<open>
  The floating-point operations the source calls belong to numpy and the libraries under
  it, and they round: what they return is not the exact result. They are a parameter of
  the model, a record of the operations used: elementwise \<open>-\<close>, \<open>*\<close> and \<open>/\<close>, \<open>np.sum\<close>
  over a float64 array, the inner product that \<open>@\<close> computes for a row and a column, and
  the conversion of an int64 to float64.
\<close>

record kernel =
  np_subtract :: "float64 \<Rightarrow> float64 \<Rightarrow> float64"
  np_multiply :: "float64 \<Rightarrow> float64 \<Rightarrow> float64"
  np_divide :: "float64 \<Rightarrow> float64 \<Rightarrow> float64"
  np_sum :: "float64 list \<Rightarrow> float64"
  np_inner :: "float64 list \<Rightarrow> float64 list \<Rightarrow> float64"
  np_float64 :: "int \<Rightarrow> float64"



section \<open>An exact arithmetic for the examples\<close>

text \<open>
  Arithmetic that computes finite results exactly and treats the special values as IEEE 754
  does. It stands for numpy's arithmetic in the examples only; their inputs are chosen so
  that what an example states holds of float64 arithmetic as well.
\<close>

fun fneg :: "float64 \<Rightarrow> float64" where
  "fneg (Finite a) = Finite (- a)"
| "fneg PosInf = NegInf"
| "fneg NegInf = PosInf"
| "fneg NaN = NaN"

fun fadd :: "float64 \<Rightarrow> float64 \<Rightarrow> float64" where
  "fadd NaN _ = NaN"
| "fadd _ NaN = NaN"
| "fadd (Finite a) (Finite b) = Finite (a + b)"
| "fadd PosInf NegInf = NaN"
| "fadd NegInf PosInf = NaN"
| "fadd PosInf _ = PosInf"
| "fadd _ PosInf = PosInf"
| "fadd NegInf _ = NegInf"
| "fadd _ NegInf = NegInf"

definition fsub :: "float64 \<Rightarrow> float64 \<Rightarrow> float64" where
  "fsub a b = fadd a (fneg b)"

text \<open>The sign of an infinity multiplied or divided by a finite value.\<close>

definition signed_inf :: "bool \<Rightarrow> float64" where
  "signed_inf positive = (if positive then PosInf else NegInf)"

fun fmul :: "float64 \<Rightarrow> float64 \<Rightarrow> float64" where
  "fmul NaN _ = NaN"
| "fmul _ NaN = NaN"
| "fmul (Finite a) (Finite b) = Finite (a * b)"
| "fmul (Finite a) PosInf = (if a = 0 then NaN else signed_inf (0 < a))"
| "fmul (Finite a) NegInf = (if a = 0 then NaN else signed_inf (a < 0))"
| "fmul PosInf (Finite b) = (if b = 0 then NaN else signed_inf (0 < b))"
| "fmul NegInf (Finite b) = (if b = 0 then NaN else signed_inf (b < 0))"
| "fmul PosInf PosInf = PosInf"
| "fmul NegInf NegInf = PosInf"
| "fmul PosInf NegInf = NegInf"
| "fmul NegInf PosInf = NegInf"

fun fdiv :: "float64 \<Rightarrow> float64 \<Rightarrow> float64" where
  "fdiv NaN _ = NaN"
| "fdiv _ NaN = NaN"
| "fdiv (Finite a) (Finite b) =
     (if b \<noteq> 0 then Finite (a / b)
      else if a = 0 then NaN
      else signed_inf (0 < a))"
| "fdiv (Finite a) _ = Finite 0"
| "fdiv PosInf (Finite b) = signed_inf (0 \<le> b)"
| "fdiv NegInf (Finite b) = signed_inf (b < 0)"
| "fdiv _ _ = NaN"

primrec fsum :: "float64 list \<Rightarrow> float64" where
  "fsum [] = Finite 0"
| "fsum (x # xs) = fadd x (fsum xs)"

definition exact_inner :: "float64 list \<Rightarrow> float64 list \<Rightarrow> float64" where
  "exact_inner u v = fsum (map2 fmul u v)"

definition exact_kernel :: kernel where
  "exact_kernel =
     \<lparr>np_subtract = fsub, np_multiply = fmul, np_divide = fdiv, np_sum = fsum,
      np_inner = exact_inner, np_float64 = (\<lambda>i. Finite (of_int i))\<rparr>"

section \<open>Arrays\<close>

text \<open>
  The value of \<open>np.array(X)\<close>: a shape and a flat row-major buffer, which numpy keeps
  as long as the product of the shape. Two dtypes are modelled: \<open>float64\<close>, and the
  unicode dtype that numpy gives an input holding a string (every element of such an array
  is a string). An array-like that \<open>np.array\<close> itself refuses is not a value of this type.
\<close>

datatype buffer = Floats "float64 list" | Strings "string list"

record ndarray =
  shape :: "nat list"
  buffer :: buffer

definition ndim :: "ndarray \<Rightarrow> nat" where
  "ndim X = length (shape X)"

type_synonym vector = "float64 list"
type_synonym matrix = "float64 list list"

text \<open>The rows of an \<open>n\<close> by \<open>p\<close> array, read from its buffer.\<close>

definition rows :: "nat \<Rightarrow> nat \<Rightarrow> float64 list \<Rightarrow> matrix" where
  "rows n p xs = map (\<lambda>i. take p (drop (i * p) xs)) [0..<n]"

definition column :: "nat \<Rightarrow> matrix \<Rightarrow> vector" where
  "column j A = map (\<lambda>r. r ! j) A"

text \<open>\<open>A.T\<close> for a matrix \<open>A\<close> with \<open>p\<close> columns.\<close>

definition transpose_of :: "nat \<Rightarrow> matrix \<Rightarrow> matrix" where
  "transpose_of p A = map (\<lambda>j. column j A) [0..<p]"

text \<open>
  \<open>A @ B\<close> for a matrix \<open>B\<close> with \<open>q\<close> columns, and \<open>A @ v\<close> for a vector: the inner
  products of the rows of \<open>A\<close> with the columns of \<open>B\<close>, or with \<open>v\<close>.
\<close>

definition matmul :: "kernel \<Rightarrow> matrix \<Rightarrow> nat \<Rightarrow> matrix \<Rightarrow> matrix" where
  "matmul k A q B = map (\<lambda>r. map (\<lambda>j. np_inner k r (column j B)) [0..<q]) A"

definition matvec :: "kernel \<Rightarrow> matrix \<Rightarrow> vector \<Rightarrow> vector" where
  "matvec k A v = map (\<lambda>r. np_inner k r v) A"

section \<open>Exceptions\<close>

text \<open>
  The exceptions that leave the three methods: those the source raises itself, with their
  messages, and those raised inside numpy and pandas by the calls the source makes
  (\<open>np.linalg.inv\<close> on a singular matrix, arithmetic on a unicode array, a missing column).
\<close>

datatype exc =
    ValueError string
  | TypeError string
  | KeyError string
  | LinAlgError
  | UFuncTypeError

fun exc_class :: "exc \<Rightarrow> string" where
  "exc_class (ValueError _) = ''ValueError''"
| "exc_class (TypeError _) = ''TypeError''"
| "exc_class (KeyError _) = ''KeyError''"
| "exc_class LinAlgError = ''LinAlgError''"
| "exc_class UFuncTypeError = ''UFuncTypeError''"

fun exc_message :: "exc \<Rightarrow> string" where
  "exc_message (ValueError m) = m"
| "exc_message (TypeError m) = m"
| "exc_message (KeyError m) = m"
| "exc_message LinAlgError = ''Singular matrix''"
| "exc_message UFuncTypeError = []"

text \<open>Class and message of the exception a call ended with, if it raised.\<close>

definition raised :: "exc + 'a \<Rightarrow> (string \<times> string) option" where
  "raised r = (case r of Inl e \<Rightarrow> Some (exc_class e, exc_message e) | Inr _ \<Rightarrow> None)"

section \<open>The estimator\<close>

record LinearRegressor =
  coef :: "vector option"

text \<open>\<open>__init__\<close>\<close>

definition init :: LinearRegressor where
  "init = \<lparr>coef = None\<rparr>"

text \<open>
  \<open>np.linalg.inv(X_np.T @ X_np) @ X_np.T @ y_np\<close>, evaluated left to right. The inversion
  routine belongs to numpy and is a parameter \<open>linalg_inv\<close>; \<open>None\<close> is its \<open>LinAlgError\<close>.
  A product with a unicode operand raises inside numpy.
\<close>

definition normal_equations ::
  "kernel \<Rightarrow> (matrix \<Rightarrow> matrix option) \<Rightarrow> ndarray \<Rightarrow> ndarray \<Rightarrow> exc + vector" where
  "normal_equations k linalg_inv X y =
     (case buffer X of
        Strings _ \<Rightarrow> Inl UFuncTypeError
      | Floats xs \<Rightarrow>
          (let n = shape X ! 0; p = shape X ! 1;
               X_np = rows n p xs; X_T = transpose_of p X_np
           in case linalg_inv (matmul k X_T p X_np) of
                None \<Rightarrow> Inl LinAlgError
              | Some M \<Rightarrow>
                  (case buffer y of
                     Strings _ \<Rightarrow> Inl UFuncTypeError
                   | Floats ys \<Rightarrow> Inr (matvec k (matmul k M n X_T) ys))))"

text \<open>
  The three methods take the instance and return it with their result, so that every
  assignment to \<open>self.coef\<close> shows. \<open>X\<close> and \<open>y\<close> are the arrays \<open>np.array\<close> has made of the
  arguments.
\<close>

definition fit ::
  "kernel \<Rightarrow> (matrix \<Rightarrow> matrix option) \<Rightarrow> LinearRegressor \<Rightarrow> ndarray \<Rightarrow> ndarray
     \<Rightarrow> (exc + vector) \<times> LinearRegressor" where
  "fit k linalg_inv self X y =
     (if ndim X \<noteq> 2 then (Inl (ValueError ''X should be a 2D array.''), self)
      else if ndim y \<noteq> 1 then (Inl (ValueError ''y should be a 1D array.''), self)
      else if shape X ! 0 \<noteq> shape y ! 0 then
        (Inl (ValueError ''The number of examples in X and y should be equal.''), self)
      else if shape X ! 0 < shape X ! 1 then
        (Inl (ValueError
           ''The number of examples in X should be greater than the number of features.''),
         self)
      else
        (case normal_equations k linalg_inv X y of
           Inl e \<Rightarrow> (Inl e, self)
         | Inr c \<Rightarrow> (Inr c, self\<lparr>coef := Some c\<rparr>)))"

text \<open>
  In \<open>predict\<close> the test \<open>np.issubdtype(X.dtype, np.number)\<close> holds for a float64 buffer and
  fails for a unicode one; \<open>np.isnan(X).any()\<close> and \<open>np.isfinite(X).all()\<close> run over all
  elements.
\<close>

definition predict ::
  "kernel \<Rightarrow> LinearRegressor \<Rightarrow> ndarray \<Rightarrow> (exc + vector) \<times> LinearRegressor" where
  "predict k self X =
     (case coef self of
        None \<Rightarrow> (Inl (ValueError ''Model not fitted. Call fit first.''), self)
      | Some w \<Rightarrow>
          if ndim X \<noteq> 2 then (Inl (ValueError ''X should be a 2D array.''), self)
          else if shape X ! 1 \<noteq> length w then
            (Inl (ValueError
               ''The number of features in X should be equal to the number of coefficients.''),
             self)
          else
            (case buffer X of
               Strings _ \<Rightarrow> (Inl (ValueError ''Input contains non-numeric values.''), self)
             | Floats xs \<Rightarrow>
                 if list_ex isnan xs then
                   (Inl (ValueError ''Input contains NaN values.''), self)
                 else if \<not> list_all isfinite xs then
                   (Inl (ValueError ''Input contains infinite values.''), self)
                 else (Inr (matvec k (rows (shape X ! 0) (shape X ! 1) xs) w), self)))"

section \<open>Tables\<close>

text \<open>
  A pandas DataFrame: the length of its index and its columns by name. A column is a
  float64 or an int64 array (what pandas makes of Python floats and of Python ints).
  Column names are taken to be distinct, and pandas keeps every column as long as the index.
\<close>

datatype column = Float64 "float64 list" | Int64 "int list"

record dataframe =
  index_len :: nat
  columns :: "(string \<times> column) list"

text \<open>\<open>df.empty\<close>: some axis has length zero.\<close>

definition df_empty :: "dataframe \<Rightarrow> bool" where
  "df_empty d = (index_len d = 0 \<or> columns d = [])"

text \<open>\<open>df[name].values\<close>; pandas raises \<open>KeyError\<close> for a name that is no column.\<close>

definition getitem :: "dataframe \<Rightarrow> string \<Rightarrow> exc + column" where
  "getitem d name = (case map_of (columns d) name of None \<Rightarrow> Inl (KeyError name) | Some v \<Rightarrow> Inr v)"

text \<open>What a caller may pass as the first argument of \<open>score\<close>.\<close>

datatype pyobject = DataFrame dataframe | PyList "float64 list list" | PyNone

fun isinstance_DataFrame :: "pyobject \<Rightarrow> bool" where
  "isinstance_DataFrame (DataFrame _) = True"
| "isinstance_DataFrame _ = False"

text \<open>
  int64 arithmetic wraps around. An operation between an int64 and a float64 operand
  converts the int64 one first.
\<close>

definition wrap64 :: "int \<Rightarrow> int" where
  "wrap64 i = (i + 2 ^ 63) mod 2 ^ 64 - 2 ^ 63"


fun as_float :: "kernel \<Rightarrow> column \<Rightarrow> float64 list" where
  "as_float k (Float64 xs) = xs"
| "as_float k (Int64 is) = map (np_float64 k) is"

text \<open>\<open>x ** 2\<close>\<close>

definition square :: "kernel \<Rightarrow> float64 \<Rightarrow> float64" where
  "square k x = np_multiply k x x"

text \<open>
  \<open>np.mean\<close>: the sum, accumulated in float64 also for an int64 array, divided by the number
  of elements.
\<close>

definition mean :: "kernel \<Rightarrow> column \<Rightarrow> float64" where
  "mean k c =
     np_divide k (np_sum k (as_float k c)) (np_float64 k (int (length (as_float k c))))"

text \<open>
  \<open>np.sum((y_true - y_true_mean) ** 2)\<close>: the mean is a float64, so the difference is
  computed in float64 whatever the column.
\<close>

definition SST :: "kernel \<Rightarrow> column \<Rightarrow> float64" where
  "SST k y_true =
     np_sum k (map (\<lambda>t. square k (np_subtract k t (mean k y_true))) (as_float k y_true))"

text \<open>
  \<open>np.sum((y_true - y_pred) ** 2)\<close>: computed in int64 when both columns are int64, and
  converted only when it is divided by \<open>SST\<close>; computed in float64 otherwise.
\<close>

definition SSE :: "kernel \<Rightarrow> column \<Rightarrow> column \<Rightarrow> float64" where
  "SSE k y_true y_pred =
     (case (y_true, y_pred) of
        (Int64 a, Int64 b) \<Rightarrow>
          np_float64 k
            (wrap64 (sum_list (map2 (\<lambda>t p. wrap64 (wrap64 (t - p) * wrap64 (t - p))) a b)))
      | _ \<Rightarrow>
          np_sum k
            (map2 (\<lambda>t p. square k (np_subtract k t p)) (as_float k y_true) (as_float k y_pred)))"

definition score ::
  "kernel \<Rightarrow> LinearRegressor \<Rightarrow> pyobject \<Rightarrow> string \<Rightarrow> string
     \<Rightarrow> (exc + float64) \<times> LinearRegressor" where
  "score k self df true_column pred_column =
     (case df of
        DataFrame d \<Rightarrow>
          if df_empty d \<or> index_len d < 2 then
            (Inl (ValueError ''DataFrame must have at least two data points''), self)
          else
            (case getitem d true_column of
               Inl e \<Rightarrow> (Inl e, self)
             | Inr y_true \<Rightarrow>
                 (case getitem d pred_column of
                    Inl e \<Rightarrow> (Inl e, self)
                  | Inr y_pred \<Rightarrow>
                      (Inr (np_subtract k (Finite 1)
                              (np_divide k (SSE k y_true y_pred) (SST k y_true))),
                       self)))
      | _ \<Rightarrow> (Inl (TypeError ''Input must be a pandas DataFrame''), self))"


section \<open>An inversion routine for the examples\<close>

text \<open>
  The reciprocal of a matrix of order one and the exact inverse of a matrix of order two
  with finite entries, refusing a zero determinant as \<open>np.linalg.inv\<close> refuses a singular
  matrix, and refusing everything else. It stands for the library routine wherever an
  example needs one.
\<close>

definition inv_small :: "matrix \<Rightarrow> matrix option" where
  "inv_small A =
     (case A of
        [] \<Rightarrow> Some []
      | [[x]] \<Rightarrow> if x = Finite 0 then None else Some [[fdiv (Finite 1) x]]
      | [[Finite a, Finite b], [Finite c, Finite d]] \<Rightarrow>
          if a * d - b * c = 0 then None
          else Some [[Finite (d / (a * d - b * c)), Finite (- b / (a * d - b * c))],
                     [Finite (- c / (a * d - b * c)), Finite (a / (a * d - b * c))]]
      | _ \<Rightarrow> None)"

text \<open>
  What the theorems below ask of the library routine where they need it: the inverse has
  as many rows as the matrix it was given.
\<close>

definition keeps_order :: "(matrix \<Rightarrow> matrix option) \<Rightarrow> bool" where
  "keeps_order linalg_inv = (\<forall>A M. linalg_inv A = Some M \<longrightarrow> length M = length A)"

section \<open>Facts about the building blocks\<close>

lemma keeps_order_inv_small: "keeps_order inv_small"
  by (auto simp: keeps_order_def inv_small_def split: list.splits float64.splits if_splits)

lemma list_ex_isnan: "list_ex isnan xs \<longleftrightarrow> NaN \<in> set xs"
proof (induction xs)
  case Nil
  show ?case by simp
next
  case (Cons x xs)
  then show ?case by (cases x) auto
qed

lemma list_all_isfinite:
  "list_all isfinite xs \<longleftrightarrow> NaN \<notin> set xs \<and> PosInf \<notin> set xs \<and> NegInf \<notin> set xs"
proof (induction xs)
  case Nil
  show ?case by simp
next
  case (Cons x xs)
  then show ?case by (cases x) auto
qed


subsection \<open>The exact arithmetic has the properties asked of numpy's\<close>




















section \<open>Calling predict before fit\<close>

lemma fit_failure_keeps_state:
  "fst (fit k linalg_inv self X y) = Inl e \<Longrightarrow> snd (fit k linalg_inv self X y) = self"
  by (simp add: fit_def split: if_splits sum.splits)

text \<open>
  C5, as the code has it. On an instance without coefficients \<open>predict\<close> raises, for
  every argument and before it looks at the argument, a \<open>ValueError\<close> with the message
  \<open>Model not fitted. Call fit first.\<close>; the instance is left as it was.
\<close>

theorem predict_unfitted:
  "coef self = None \<Longrightarrow>
     predict k self X = (Inl (ValueError ''Model not fitted. Call fit first.''), self)"
  by (simp add: predict_def)

theorem predict_unfitted_witness:
  "coef init = None \<and>
   predict exact_kernel init \<lparr>shape = [1, 1], buffer = Floats [NaN]\<rparr>
     = (Inl (ValueError ''Model not fitted. Call fit first.''), init)"
  using predict_unfitted [of init exact_kernel "\<lparr>shape = [1, 1], buffer = Floats [NaN]\<rparr>"]
  by (simp add: init_def)

text \<open>
  The exception of an unfitted instance is the built-in \<open>ValueError\<close>, not a
  \<open>NotFittedError\<close>, and its message is not \<open>model not fitted; call fit first\<close>.
\<close>

theorem predict_unfitted_counterexample:
  "raised (fst (predict exact_kernel init \<lparr>shape = [1, 1], buffer = Floats [Finite 1]\<rparr>))
     = Some (''ValueError'', ''Model not fitted. Call fit first.'') \<and>
   raised (fst (predict exact_kernel init \<lparr>shape = [1, 1], buffer = Floats [Finite 1]\<rparr>))
     \<noteq> Some (''NotFittedError'', ''model not fitted; call fit first'')"
  by (simp add: predict_def init_def raised_def)

section \<open>What predict checks and returns\<close>

text \<open>
  C7. On a fitted instance and a two-dimensional argument with as many columns as there
  are coefficients, \<open>predict\<close> raises a \<open>ValueError\<close> at the first failing check, in this
  order: the array is not numeric (as it is as soon as one element is a string), then some
  element is NaN, then some element is infinite. One NaN is enough, whatever the other
  elements are, infinities included.
\<close>

theorem predict_quality_order:
  assumes "coef self = Some w" and "ndim X = 2" and "shape X ! 1 = length w"
  shows "(buffer X = Strings ss \<longrightarrow>
            predict k self X = (Inl (ValueError ''Input contains non-numeric values.''), self)) \<and>
         (buffer X = Floats xs \<and> NaN \<in> set xs \<longrightarrow>
            predict k self X = (Inl (ValueError ''Input contains NaN values.''), self)) \<and>
         (buffer X = Floats xs \<and> NaN \<notin> set xs \<and> (PosInf \<in> set xs \<or> NegInf \<in> set xs) \<longrightarrow>
            predict k self X = (Inl (ValueError ''Input contains infinite values.''), self))"
  using assms by (auto simp: predict_def list_ex_isnan list_all_isfinite)

theorem predict_quality_order_witness:
  "predict exact_kernel \<lparr>coef = Some [Finite 2, Finite 3]\<rparr>
       \<lparr>shape = [1, 2], buffer = Strings [''1'', ''a'']\<rparr>
     = (Inl (ValueError ''Input contains non-numeric values.''),
        \<lparr>coef = Some [Finite 2, Finite 3]\<rparr>) \<and>
   predict exact_kernel \<lparr>coef = Some [Finite 2, Finite 3]\<rparr>
       \<lparr>shape = [2, 2], buffer = Floats [Finite 1, PosInf, NaN, Finite 4]\<rparr>
     = (Inl (ValueError ''Input contains NaN values.''), \<lparr>coef = Some [Finite 2, Finite 3]\<rparr>) \<and>
   predict exact_kernel \<lparr>coef = Some [Finite 2, Finite 3]\<rparr>
       \<lparr>shape = [2, 2], buffer = Floats [Finite 1, Finite 2, NegInf, Finite 4]\<rparr>
     = (Inl (ValueError ''Input contains infinite values.''),
        \<lparr>coef = Some [Finite 2, Finite 3]\<rparr>)"
  using
    predict_quality_order [of "\<lparr>coef = Some [Finite 2, Finite 3]\<rparr>" "[Finite 2, Finite 3]"
      "\<lparr>shape = [1, 2], buffer = Strings [''1'', ''a'']\<rparr>" "[''1'', ''a'']" exact_kernel "[]"]
    predict_quality_order [of "\<lparr>coef = Some [Finite 2, Finite 3]\<rparr>" "[Finite 2, Finite 3]"
      "\<lparr>shape = [2, 2], buffer = Floats [Finite 1, PosInf, NaN, Finite 4]\<rparr>" "[]" exact_kernel
      "[Finite 1, PosInf, NaN, Finite 4]"]
    predict_quality_order [of "\<lparr>coef = Some [Finite 2, Finite 3]\<rparr>" "[Finite 2, Finite 3]"
      "\<lparr>shape = [2, 2], buffer = Floats [Finite 1, Finite 2, NegInf, Finite 4]\<rparr>" "[]"
      exact_kernel "[Finite 1, Finite 2, NegInf, Finite 4]"]
  by (simp add: ndim_def)



section \<open>What score checks\<close>

text \<open>
  C8. \<open>score\<close> raises a \<open>TypeError\<close> for every first argument that is not a DataFrame,
  whatever it holds, and a \<open>ValueError\<close> for a DataFrame with fewer than two rows.
\<close>

theorem score_argument_checks:
  "(\<not> isinstance_DataFrame df \<longrightarrow>
      score k self df true_column pred_column
        = (Inl (TypeError ''Input must be a pandas DataFrame''), self)) \<and>
   (index_len d < 2 \<longrightarrow>
      score k self (DataFrame d) true_column pred_column
        = (Inl (ValueError ''DataFrame must have at least two data points''), self))"
  by (cases df) (simp_all add: score_def)

theorem score_argument_checks_witness:
  "score exact_kernel init (PyList []) ''t'' ''p''
     = (Inl (TypeError ''Input must be a pandas DataFrame''), init) \<and>
   score exact_kernel init
       (DataFrame \<lparr>index_len = 1,
          columns = [(''t'', Float64 [Finite 1]), (''p'', Float64 [Finite 1])]\<rparr>)
       ''t'' ''p''
     = (Inl (ValueError ''DataFrame must have at least two data points''), init)"
  using score_argument_checks [of "PyList []" exact_kernel init "''t''" "''p''"
      "\<lparr>index_len = 1, columns = [(''t'', Float64 [Finite 1]), (''p'', Float64 [Finite 1])]\<rparr>"]
  by simp

text \<open>
  C9. Neither \<open>predict\<close> nor \<open>score\<close> changes the instance: whether the call returns a value
  or raises, the instance after the call is the instance before it, coefficients included.
\<close>

theorem predict_score_keep_state:
  "snd (predict k self X) = self \<and> snd (score k self df true_column pred_column) = self"
  by (simp add: predict_def score_def split: option.splits buffer.splits pyobject.splits sum.splits)

theorem predict_score_keep_state_witness:
  "snd (predict exact_kernel \<lparr>coef = Some [Finite 2]\<rparr>
          \<lparr>shape = [1, 1], buffer = Floats [Finite 3]\<rparr>)
     = \<lparr>coef = Some [Finite 2]\<rparr> \<and>
   snd (predict exact_kernel \<lparr>coef = Some [Finite 2]\<rparr> \<lparr>shape = [1, 1], buffer = Floats [NaN]\<rparr>)
     = \<lparr>coef = Some [Finite 2]\<rparr> \<and>
   snd (score exact_kernel \<lparr>coef = Some [Finite 2]\<rparr> PyNone ''t'' ''p'')
     = \<lparr>coef = Some [Finite 2]\<rparr>"
  using
    predict_score_keep_state [of exact_kernel "\<lparr>coef = Some [Finite 2]\<rparr>"
      "\<lparr>shape = [1, 1], buffer = Floats [Finite 3]\<rparr>" PyNone "''t''" "''p''"]
    predict_score_keep_state [of exact_kernel "\<lparr>coef = Some [Finite 2]\<rparr>"
      "\<lparr>shape = [1, 1], buffer = Floats [NaN]\<rparr>" PyNone "''t''" "''p''"]
  by simp

section \<open>The coefficient of determination\<close>













section \<open>What fit checks and stores\<close>

lemma fit_success:
  assumes "fit k linalg_inv self X y = (Inr c, self')"
  shows "ndim X = 2 \<and> ndim y = 1 \<and> shape X ! 0 = shape y ! 0 \<and> shape X ! 1 \<le> shape X ! 0 \<and>
         normal_equations k linalg_inv X y = Inr c \<and> self' = \<lparr>coef = Some c\<rparr>"
  using assms by (auto simp: fit_def split: if_splits sum.splits)

lemma normal_equations_length:
  assumes "keeps_order linalg_inv" and "normal_equations k linalg_inv X y = Inr c"
  shows "length c = shape X ! 1"
proof -
  from assms(2) obtain xs M ys where
    M: "linalg_inv (matmul k (transpose_of (shape X ! 1) (rows (shape X ! 0) (shape X ! 1) xs))
          (shape X ! 1) (rows (shape X ! 0) (shape X ! 1) xs)) = Some M"
    and c: "c = matvec k (matmul k M (shape X ! 0)
          (transpose_of (shape X ! 1) (rows (shape X ! 0) (shape X ! 1) xs))) ys"
    by (auto simp: normal_equations_def Let_def split: buffer.splits option.splits)
  from assms(1) M have "length M = shape X ! 1"
    by (auto simp: keeps_order_def matmul_def transpose_of_def)
  with c show ?thesis by (simp add: matvec_def matmul_def)
qed

lemma fit_example:
  "fit exact_kernel inv_small self
       \<lparr>shape = [3, 2],
        buffer = Floats [Finite 1, Finite 0, Finite 0, Finite 1, Finite 0, Finite 0]\<rparr>
       \<lparr>shape = [3], buffer = Floats [Finite 3, Finite 4, Finite 5]\<rparr>
     = (Inr [Finite 3, Finite 4], \<lparr>coef = Some [Finite 3, Finite 4]\<rparr>)"
  by (simp add: fit_def ndim_def normal_equations_def rows_def transpose_of_def matmul_def
      matvec_def exact_kernel_def exact_inner_def column_def inv_small_def upt_conv_Cons
      eval_nat_numeral)

text \<open>
  C6, as the code has it. \<open>fit\<close> checks in this order, and the first failing check decides:
  \<open>X\<close> is two-dimensional, \<open>y\<close> is one-dimensional, \<open>X\<close> has as many rows as \<open>y\<close> has
  elements, \<open>X\<close> has no fewer rows than columns. Each failure is a \<open>ValueError\<close> with the
  message of its check, and the instance is left as it was.
\<close>

theorem fit_validation_order:
  "(ndim X \<noteq> 2 \<longrightarrow>
      fit k linalg_inv self X y = (Inl (ValueError ''X should be a 2D array.''), self)) \<and>
   (ndim X = 2 \<and> ndim y \<noteq> 1 \<longrightarrow>
      fit k linalg_inv self X y = (Inl (ValueError ''y should be a 1D array.''), self)) \<and>
   (ndim X = 2 \<and> ndim y = 1 \<and> shape X ! 0 \<noteq> shape y ! 0 \<longrightarrow>
      fit k linalg_inv self X y =
        (Inl (ValueError ''The number of examples in X and y should be equal.''), self)) \<and>
   (ndim X = 2 \<and> ndim y = 1 \<and> shape X ! 0 = shape y ! 0 \<and> shape X ! 0 < shape X ! 1 \<longrightarrow>
      fit k linalg_inv self X y =
        (Inl (ValueError
           ''The number of examples in X should be greater than the number of features.''),
         self))"
  by (simp add: fit_def)

theorem fit_validation_order_witness:
  "fit exact_kernel inv_small init
       \<lparr>shape = [3], buffer = Floats [Finite 1, Finite 2, Finite 3]\<rparr>
       \<lparr>shape = [1, 2], buffer = Floats [Finite 1, Finite 2]\<rparr>
     = (Inl (ValueError ''X should be a 2D array.''), init) \<and>
   fit exact_kernel inv_small init \<lparr>shape = [1, 2], buffer = Floats [Finite 1, Finite 2]\<rparr>
       \<lparr>shape = [3, 1], buffer = Floats [Finite 1, Finite 2, Finite 3]\<rparr>
     = (Inl (ValueError ''y should be a 1D array.''), init) \<and>
   fit exact_kernel inv_small init \<lparr>shape = [1, 2], buffer = Floats [Finite 1, Finite 2]\<rparr>
       \<lparr>shape = [3], buffer = Floats [Finite 1, Finite 2, Finite 3]\<rparr>
     = (Inl (ValueError ''The number of examples in X and y should be equal.''), init) \<and>
   fit exact_kernel inv_small init
       \<lparr>shape = [2, 3],
        buffer = Floats [Finite 1, Finite 2, Finite 3, Finite 4, Finite 5, Finite 6]\<rparr>
       \<lparr>shape = [2], buffer = Floats [Finite 1, Finite 2]\<rparr>
     = (Inl (ValueError
          ''The number of examples in X should be greater than the number of features.''),
        init)"
  using
    fit_validation_order [of "\<lparr>shape = [3], buffer = Floats [Finite 1, Finite 2, Finite 3]\<rparr>"
      exact_kernel inv_small init "\<lparr>shape = [1, 2], buffer = Floats [Finite 1, Finite 2]\<rparr>"]
    fit_validation_order [of "\<lparr>shape = [1, 2], buffer = Floats [Finite 1, Finite 2]\<rparr>"
      exact_kernel inv_small init
      "\<lparr>shape = [3, 1], buffer = Floats [Finite 1, Finite 2, Finite 3]\<rparr>"]
    fit_validation_order [of "\<lparr>shape = [1, 2], buffer = Floats [Finite 1, Finite 2]\<rparr>"
      exact_kernel inv_small init "\<lparr>shape = [3], buffer = Floats [Finite 1, Finite 2, Finite 3]\<rparr>"]
    fit_validation_order [of
      "\<lparr>shape = [2, 3],
        buffer = Floats [Finite 1, Finite 2, Finite 3, Finite 4, Finite 5, Finite 6]\<rparr>"
      exact_kernel inv_small init "\<lparr>shape = [2], buffer = Floats [Finite 1, Finite 2]\<rparr>"]
  by (simp add: ndim_def)

text \<open>
  With two samples and three features the exception is a \<open>ValueError\<close>; the source has no
  class \<open>ShapeError\<close>.
\<close>

theorem fit_validation_order_counterexample:
  "raised (fst (fit exact_kernel inv_small init
       \<lparr>shape = [2, 3],
        buffer = Floats [Finite 1, Finite 2, Finite 3, Finite 4, Finite 5, Finite 6]\<rparr>
       \<lparr>shape = [2], buffer = Floats [Finite 1, Finite 2]\<rparr>))
     = Some (''ValueError'',
         ''The number of examples in X should be greater than the number of features.'') \<and>
   map_option fst (raised (fst (fit exact_kernel inv_small init
       \<lparr>shape = [2, 3],
        buffer = Floats [Finite 1, Finite 2, Finite 3, Finite 4, Finite 5, Finite 6]\<rparr>
       \<lparr>shape = [2], buffer = Floats [Finite 1, Finite 2]\<rparr>)))
     \<noteq> Some ''ShapeError''"
  by (simp add: fit_def ndim_def raised_def)

text \<open>
  C4. After a successful \<open>fit\<close> on an \<open>X\<close> with \<open>shape X ! 1\<close> columns the instance holds
  a coefficient vector of that length, given that the inversion returns a matrix of the
  order of its argument. Every \<open>predict\<close> on that instance raises for an argument that is
  not two-dimensional and for a two-dimensional argument whose number of columns differs
  from the number of coefficients.
\<close>

theorem fit_coef_length:
  assumes "keeps_order linalg_inv" and "fit k linalg_inv self X y = (Inr c, self')"
  shows "coef self' = Some c \<and> length c = shape X ! 1 \<and>
         (\<forall>X'. ndim X' \<noteq> 2 \<longrightarrow>
            predict k self' X' = (Inl (ValueError ''X should be a 2D array.''), self')) \<and>
         (\<forall>X'. ndim X' = 2 \<and> shape X' ! 1 \<noteq> length c \<longrightarrow>
            predict k self' X' =
              (Inl (ValueError
                 ''The number of features in X should be equal to the number of coefficients.''),
               self'))"
proof -
  from fit_success [OF assms(2)] have ne: "normal_equations k linalg_inv X y = Inr c"
    and s: "self' = \<lparr>coef = Some c\<rparr>" by simp_all
  from normal_equations_length [OF assms(1) ne] have "length c = shape X ! 1" .
  with s show ?thesis by (simp add: predict_def)
qed

theorem fit_coef_length_witness:
  "keeps_order inv_small \<and>
   fit exact_kernel inv_small init
       \<lparr>shape = [3, 2],
        buffer = Floats [Finite 1, Finite 0, Finite 0, Finite 1, Finite 0, Finite 0]\<rparr>
       \<lparr>shape = [3], buffer = Floats [Finite 3, Finite 4, Finite 5]\<rparr>
     = (Inr [Finite 3, Finite 4], \<lparr>coef = Some [Finite 3, Finite 4]\<rparr>) \<and>
   length [Finite 3, Finite 4] = 2 \<and>
   predict exact_kernel \<lparr>coef = Some [Finite 3, Finite 4]\<rparr>
       \<lparr>shape = [1, 3], buffer = Floats [Finite 1, Finite 4, Finite 5]\<rparr>
     = (Inl (ValueError
          ''The number of features in X should be equal to the number of coefficients.''),
        \<lparr>coef = Some [Finite 3, Finite 4]\<rparr>)"
proof -
  let ?X' = "\<lparr>shape = [1, 3], buffer = Floats [Finite 1, Finite 4, Finite 5]\<rparr>"
  note t = fit_coef_length [OF keeps_order_inv_small fit_example [of init]]
  have "ndim ?X' = 2 \<and> shape ?X' ! 1 \<noteq> length [Finite 3, Finite 4 :: float64]"
    by (simp add: ndim_def)
  with t [THEN conjunct2, THEN conjunct2, THEN conjunct2, rule_format, of ?X']
  have "predict exact_kernel \<lparr>coef = Some [Finite 3, Finite 4]\<rparr> ?X'
     = (Inl (ValueError
          ''The number of features in X should be equal to the number of coefficients.''),
        \<lparr>coef = Some [Finite 3, Finite 4]\<rparr>)" by blast
  with keeps_order_inv_small fit_example [of init] show ?thesis by simp
qed

text \<open>
  C10. \<open>fit\<close> looks at shapes only. Once the four checks pass it raises no \<open>ValueError\<close>
  at all, so none about non-numeric, NaN or infinite values: it either ends with the
  exception of a library call, the instance unchanged, or stores and returns the
  coefficients it computed, and for numeric arrays it does the latter whenever the
  inversion succeeds, whatever NaN or infinity the arrays hold. \<open>predict\<close> on the contrary
  raises a \<open>ValueError\<close> for every numeric argument of the right shape with an element that
  is not finite.
\<close>

theorem fit_no_quality_check:
  assumes "ndim X = 2" and "ndim y = 1" and "shape X ! 0 = shape y ! 0"
    and "shape X ! 1 \<le> shape X ! 0"
  shows "(\<forall>m. fst (fit k linalg_inv self X y) \<noteq> Inl (ValueError m)) \<and>
         (case fst (fit k linalg_inv self X y) of
            Inl e \<Rightarrow> (e = LinAlgError \<or> e = UFuncTypeError) \<and>
              snd (fit k linalg_inv self X y) = self
          | Inr c \<Rightarrow> snd (fit k linalg_inv self X y) = \<lparr>coef = Some c\<rparr>) \<and>
         (\<forall>xs ys M. buffer X = Floats xs \<and> buffer y = Floats ys \<and>
            linalg_inv (matmul k (transpose_of (shape X ! 1) (rows (shape X ! 0) (shape X ! 1) xs))
              (shape X ! 1) (rows (shape X ! 0) (shape X ! 1) xs)) = Some M \<longrightarrow>
            (\<exists>c. fit k linalg_inv self X y = (Inr c, \<lparr>coef = Some c\<rparr>))) \<and>
         (\<forall>fitted w xs. coef fitted = Some w \<and> length w = shape X ! 1 \<and> buffer X = Floats xs \<and>
            \<not> list_all isfinite xs \<longrightarrow>
            (\<exists>m. predict k fitted X = (Inl (ValueError m), fitted)))"
  using assms
  by (auto simp: fit_def normal_equations_def predict_def Let_def
      split: buffer.splits option.splits)

theorem fit_no_quality_check_witness:
  "fit exact_kernel inv_small init \<lparr>shape = [1, 1], buffer = Floats [NaN]\<rparr>
       \<lparr>shape = [1], buffer = Floats [Finite 1]\<rparr>
     = (Inr [NaN], \<lparr>coef = Some [NaN]\<rparr>) \<and>
   fst (fit exact_kernel inv_small init \<lparr>shape = [1, 1], buffer = Floats [NaN]\<rparr>
       \<lparr>shape = [1], buffer = Floats [Finite 1]\<rparr>)
     \<noteq> Inl (ValueError ''Input contains NaN values.'') \<and>
   fit exact_kernel inv_small init \<lparr>shape = [1, 1], buffer = Floats [Finite 1]\<rparr>
       \<lparr>shape = [1], buffer = Floats [PosInf]\<rparr>
     = (Inr [PosInf], \<lparr>coef = Some [PosInf]\<rparr>) \<and>
   predict exact_kernel \<lparr>coef = Some [NaN]\<rparr> \<lparr>shape = [1, 1], buffer = Floats [NaN]\<rparr>
     = (Inl (ValueError ''Input contains NaN values.''), \<lparr>coef = Some [NaN]\<rparr>)"
proof -
  let ?X = "\<lparr>shape = [1, 1], buffer = Floats [NaN]\<rparr>"
  let ?y = "\<lparr>shape = [1], buffer = Floats [Finite 1]\<rparr>"
  have h: "ndim ?X = 2" "ndim ?y = 1" "shape ?X ! 0 = shape ?y ! 0" "shape ?X ! 1 \<le> shape ?X ! 0"
    by (simp_all add: ndim_def)
  note t = fit_no_quality_check [OF h, of exact_kernel inv_small init]
  from t [THEN conjunct1, rule_format, of "''Input contains NaN values.''"]
  have a: "fst (fit exact_kernel inv_small init ?X ?y)
      \<noteq> Inl (ValueError ''Input contains NaN values.'')" .
  have b: "fit exact_kernel inv_small init ?X ?y = (Inr [NaN], \<lparr>coef = Some [NaN]\<rparr>)"
    by (simp add: fit_def ndim_def normal_equations_def rows_def transpose_of_def matmul_def
        matvec_def exact_kernel_def exact_inner_def column_def inv_small_def init_def)
  have c: "fit exact_kernel inv_small init \<lparr>shape = [1, 1], buffer = Floats [Finite 1]\<rparr>
       \<lparr>shape = [1], buffer = Floats [PosInf]\<rparr> = (Inr [PosInf], \<lparr>coef = Some [PosInf]\<rparr>)"
    by (simp add: fit_def ndim_def normal_equations_def rows_def transpose_of_def matmul_def
        matvec_def exact_kernel_def exact_inner_def column_def inv_small_def init_def
        signed_inf_def)
  have d: "predict exact_kernel \<lparr>coef = Some [NaN]\<rparr> ?X
     = (Inl (ValueError ''Input contains NaN values.''), \<lparr>coef = Some [NaN]\<rparr>)"
    by (simp add: predict_def ndim_def)
  from a b c d show ?thesis by blast
qed

end
